theory Spec2Isabelle
  imports Main "HOL-Library.Multiset" "HOL-Library.Word" "HOL-Library.Char_ord"
    "HOL-Library.List_Lexorder"
begin

section \<open>Common values\<close>

text \<open>
  A Go \<open>error\<close> value. The commands never inspect an error, they only hand it on,
  so an error is an opaque value carrying its text.
\<close>

datatype error = Error string

text \<open>
  How a Go function of result type \<open>error\<close> ends: it returns \<open>nil\<close>, it returns an
  error, or it panics (a nil pointer is dereferenced).
\<close>

datatype outcome = Returned_nil | Returned_err error | Panicked

section \<open>The inventory client (package main, the image commands)\<close>

subsection \<open>Messages of the remote service\<close>

text \<open>
  The protobuf messages, with the fields the commands read. A field of message type is a
  pointer in Go and may be nil: it is an \<open>option\<close> here. The elements of a repeated
  field are never nil. Go strings are byte strings: \<open>string\<close>, compared by
  \<open><\<close> byte by byte as Go does.
\<close>

record Timestamp =
  Seconds :: "64 word"
  Nanos :: "32 word"

record Manifest =
  Tag :: string
  Created :: "Timestamp option"
  Digest :: string
  Size :: "64 word"

record ImageListResponse_Image =
  Name :: string
  ManifestsCount :: "64 word"
  Latest :: "Manifest option"

record ImageListResponse =
  Images :: "ImageListResponse_Image list"

record ImageInspectResponse_Image =
  inspect_Name :: string
  Manifests :: "Manifest list"

record ImageInspectResponse =
  Image :: "ImageInspectResponse_Image option"

record ImageRemoveResponse =
  removed_Manifests :: "Manifest list"

record ImagePruneResponse_Image =
  pruned_Manifests :: "Manifest list"

record ImagePruneResponse =
  pruned_Images :: "ImagePruneResponse_Image list"

subsection \<open>The commands' flags\<close>

record ImageListCmd =
  list_Raw :: bool
  list_GRPCAuthority :: string

record ImageInspectCmd =
  inspect_Image :: string
  inspect_Raw :: bool
  inspect_GRPCAuthority :: string

record ImageRemoveCmd =
  remove_Image :: string
  remove_GRPCAuthority :: string

record ImagePruneCmd =
  Force :: bool
  prune_GRPCAuthority :: string

subsection \<open>What a command does to the outside\<close>

text \<open>
  A cell of a \<open>table.Row\<close>, the table handed to the writer (header, rows in order,
  footer), and the effects of a command in the order they happen: the remote calls, the
  confirmation prompt, the lines printed and the table rendered. The deferred close of
  the connection has no part in the outcome and is left out.
\<close>

datatype cell = CString string | CInt64 "64 word" | CInt nat

record table =
  header :: "cell list"
  rows :: "cell list list"
  footer :: "cell list"

datatype event =
  Call_ImageList string
  | Call_ImageInspect string string
  | Call_ImageRemove string string
  | Call_ImagePrune string
  | Ask string
  | Println string
  | Render table

text \<open>
  The collaborators of the commands, which are not part of the commands' code: the gRPC
  connection and the four remote calls (first argument: the authority the connection was
  made to), the prompt, and the library functions the rendering uses.
  \<^item> \<open>to_upper\<close> is \<open>strings.Map(unicode.ToUpper, \<cdot>)\<close>;
  \<^item> \<open>AsTime\<close> is \<open>(*Timestamp).AsTime\<close> (defined on nil too), into the instants
    \<open>'t\<close>, which \<open>time.Time.After\<close> orders linearly: \<open>t.After(u)\<close> is \<open>u < t\<close>;
  \<^item> \<open>Format_RFC3339\<close> is \<open>Time.Format(time.RFC3339)\<close>;
  \<^item> \<open>HumanSize\<close> is \<open>units.HumanSize(float64(\<cdot>))\<close> on an \<open>int64\<close>;
  \<^item> \<open>Marshal_list\<close> and \<open>Marshal_inspect\<close> are \<open>protojson.Marshal\<close>, with both of
    its results (the bytes and the error);
  \<^item> \<open>pretty_Pretty\<close> is \<open>pretty.Pretty\<close>.
\<close>

record 't world =
  grpc_NewClient :: "string \<Rightarrow> error option"
  rpc_ImageList :: "string \<Rightarrow> error + ImageListResponse"
  rpc_ImageInspect :: "string \<Rightarrow> string \<Rightarrow> error + ImageInspectResponse"
  rpc_ImageRemove :: "string \<Rightarrow> string \<Rightarrow> error + ImageRemoveResponse"
  rpc_ImagePrune :: "string \<Rightarrow> error + ImagePruneResponse"
  survey_AskOne :: "string \<Rightarrow> error + bool"
  to_upper :: "string \<Rightarrow> string"
  AsTime :: "Timestamp option \<Rightarrow> 't"
  Format_RFC3339 :: "'t \<Rightarrow> string"
  HumanSize :: "64 word \<Rightarrow> string"
  Marshal_list :: "ImageListResponse \<Rightarrow> string \<times> error option"
  Marshal_inspect :: "ImageInspectResponse \<Rightarrow> string \<times> error option"
  pretty_Pretty :: "string \<Rightarrow> string"

subsection \<open>Formatting\<close>

text \<open>The verb \<open>%d\<close> of \<open>fmt.Sprintf\<close> on a length or a count (never negative).\<close>

fun fmt_d :: "nat \<Rightarrow> string" where
  "fmt_d n =
     (if n < 10 then [''0123456789'' ! n]
      else fmt_d (n div 10) @ [''0123456789'' ! (n mod 10)])"

declare fmt_d.simps [simp del]

text \<open>\<open>fmt.Sprintf("%d (%s)", n, s)\<close>, the footer of the removal tables.\<close>

definition Sprintf_d_s :: "nat \<Rightarrow> string \<Rightarrow> string" where
  "Sprintf_d_s n s = fmt_d n @ '' ('' @ s @ '')''"

subsection \<open>List\<close>

text \<open>The comparison handed to \<open>sort.Slice\<close> by \<open>ImageListCmd.Run\<close>.\<close>

definition list_less :: "'t world \<Rightarrow> ImageListResponse_Image \<Rightarrow> ImageListResponse_Image \<Rightarrow> bool" where
  "list_less w a b \<longleftrightarrow> to_upper w (Name a) < to_upper w (Name b)"

text \<open>
  One row of the table of \<open>ImageListCmd.Run\<close>. \<open>image.Latest.Tag\<close> reads through the
  pointer \<open>Latest\<close>: on a nil pointer the command panics (\<open>None\<close>).
\<close>

definition list_row :: "'t world \<Rightarrow> ImageListResponse_Image \<Rightarrow> cell list option" where
  "list_row w img =
     (case Latest img of
        None \<Rightarrow> None
      | Some latest \<Rightarrow>
          Some [CString (Name img), CInt64 (ManifestsCount img), CString (Tag latest),
                CString (Format_RFC3339 w (AsTime w (Created latest))), CString (Digest latest)])"

text \<open>
  The rows of a table, appended one by one; a panic in a row ends the command before
  anything is rendered.
\<close>

fun append_rows :: "('a \<Rightarrow> cell list option) \<Rightarrow> 'a list \<Rightarrow> cell list list option" where
  "append_rows f [] = Some []"
| "append_rows f (x # xs) =
     (case f x of
        None \<Rightarrow> None
      | Some r \<Rightarrow> (case append_rows f xs of None \<Rightarrow> None | Some rs \<Rightarrow> Some (r # rs)))"

text \<open>
  \<open>ImageListCmd.Run\<close> from the test of \<open>s.Raw\<close> on: the output of the response
  \<open>il\<close>, whose images are sorted by then.
\<close>

definition list_output :: "'t world \<Rightarrow> ImageListCmd \<Rightarrow> ImageListResponse \<Rightarrow> outcome \<times> event list" where
  "list_output w s il =
     (if list_Raw s then
        (Returned_nil,
         [Call_ImageList (list_GRPCAuthority s),
          Println (pretty_Pretty w (fst (Marshal_list w il)))])
      else if length (Images il) = 0 then
        (Returned_nil,
         [Call_ImageList (list_GRPCAuthority s), Println ''No image found in the database''])
      else
        (case append_rows (list_row w) (Images il) of
           None \<Rightarrow> (Panicked, [Call_ImageList (list_GRPCAuthority s)])
         | Some rs \<Rightarrow>
             (Returned_nil,
              [Call_ImageList (list_GRPCAuthority s),
               Render \<lparr>header = [CString ''Name'', CString ''Manifests Count'',
                                   CString ''Latest Tag'', CString ''Latest Created'',
                                   CString ''Latest Digest''],
                         rows = rs,
                         footer = [CString ''Total'', CInt (length (Images il))]\<rparr>])))"

text \<open>
  \<open>ImageListCmd.Run\<close>. \<open>sort_Slice\<close> is \<open>sort.Slice\<close> of the Go library, taken as a
  parameter: it receives the comparison and the slice and returns the slice as sorted.
\<close>

definition ImageListCmd_Run ::
  "((ImageListResponse_Image \<Rightarrow> ImageListResponse_Image \<Rightarrow> bool) \<Rightarrow>
      ImageListResponse_Image list \<Rightarrow> ImageListResponse_Image list) \<Rightarrow>
    't world \<Rightarrow> ImageListCmd \<Rightarrow> outcome \<times> event list" where
  "ImageListCmd_Run sort_Slice w s =
     (case grpc_NewClient w (list_GRPCAuthority s) of
        Some err \<Rightarrow> (Returned_err err, [])
      | None \<Rightarrow>
          (case rpc_ImageList w (list_GRPCAuthority s) of
             Inl err \<Rightarrow> (Returned_err err, [Call_ImageList (list_GRPCAuthority s)])
           | Inr il \<Rightarrow>
               list_output w s (il\<lparr>Images := sort_Slice (list_less w) (Images il)\<rparr>)))"

subsection \<open>Inspect\<close>

text \<open>The comparison handed to \<open>sort.Slice\<close> by \<open>ImageInspectCmd.Run\<close>.\<close>

definition inspect_less :: "'t::linorder world \<Rightarrow> Manifest \<Rightarrow> Manifest \<Rightarrow> bool" where
  "inspect_less w a b \<longleftrightarrow> AsTime w (Created b) < AsTime w (Created a)"

definition inspect_row :: "'t world \<Rightarrow> Manifest \<Rightarrow> cell list" where
  "inspect_row w m =
     [CString (Tag m), CString (Format_RFC3339 w (AsTime w (Created m))), CString (Digest m)]"

text \<open>
  \<open>ImageInspectCmd.Run\<close>. \<open>ii.Image.Manifests\<close> reads through the pointer \<open>Image\<close>
  before the output mode is looked at: on a response without an image the command
  panics.
\<close>

definition ImageInspectCmd_Run ::
  "((Manifest \<Rightarrow> Manifest \<Rightarrow> bool) \<Rightarrow> Manifest list \<Rightarrow> Manifest list) \<Rightarrow>
    't::linorder world \<Rightarrow> ImageInspectCmd \<Rightarrow> outcome \<times> event list" where
  "ImageInspectCmd_Run sort_Slice w s =
     (case grpc_NewClient w (inspect_GRPCAuthority s) of
        Some err \<Rightarrow> (Returned_err err, [])
      | None \<Rightarrow>
          (case rpc_ImageInspect w (inspect_GRPCAuthority s) (inspect_Image s) of
             Inl err \<Rightarrow>
               (Returned_err err, [Call_ImageInspect (inspect_GRPCAuthority s) (inspect_Image s)])
           | Inr ii0 \<Rightarrow>
               (case Image ii0 of
                  None \<Rightarrow> (Panicked, [Call_ImageInspect (inspect_GRPCAuthority s) (inspect_Image s)])
                | Some image0 \<Rightarrow>
                    (let ms = sort_Slice (inspect_less w) (Manifests image0);
                         ii = ii0\<lparr>Image := Some (image0\<lparr>Manifests := ms\<rparr>)\<rparr> in
                     if inspect_Raw s then
                       (Returned_nil,
                        [Call_ImageInspect (inspect_GRPCAuthority s) (inspect_Image s),
                         Println (pretty_Pretty w (fst (Marshal_inspect w ii)))])
                     else
                       (Returned_nil,
                        [Call_ImageInspect (inspect_GRPCAuthority s) (inspect_Image s),
                         Render \<lparr>header = [CString ''Tag'', CString ''Created'', CString ''Digest''],
                                   rows = map (inspect_row w) ms,
                                   footer = [CString ''Total'', CInt (length ms)]\<rparr>])))))"

subsection \<open>Remove\<close>

text \<open>A row of the removal tables of \<open>ImageRemoveCmd.Run\<close> and \<open>ImagePruneCmd.Run\<close>.\<close>

definition removed_row :: "'t world \<Rightarrow> Manifest \<Rightarrow> cell list" where
  "removed_row w m =
     [CString (Tag m), CString (Format_RFC3339 w (AsTime w (Created m))), CString (Digest m),
      CString (HumanSize w (Size m))]"

text \<open>\<open>totalSize += m.Size\<close> over a list of manifests, in \<open>int64\<close> (the sum wraps).\<close>

definition add_sizes :: "64 word \<Rightarrow> Manifest list \<Rightarrow> 64 word" where
  "add_sizes acc ms = fold (\<lambda>m t. t + Size m) ms acc"

definition ImageRemoveCmd_Run :: "'t world \<Rightarrow> ImageRemoveCmd \<Rightarrow> outcome \<times> event list" where
  "ImageRemoveCmd_Run w s =
     (case grpc_NewClient w (remove_GRPCAuthority s) of
        Some err \<Rightarrow> (Returned_err err, [])
      | None \<Rightarrow>
          (case rpc_ImageRemove w (remove_GRPCAuthority s) (remove_Image s) of
             Inl err \<Rightarrow>
               (Returned_err err, [Call_ImageRemove (remove_GRPCAuthority s) (remove_Image s)])
           | Inr removed \<Rightarrow>
               (let totalSize = add_sizes 0 (removed_Manifests removed) in
                (Returned_nil,
                 [Call_ImageRemove (remove_GRPCAuthority s) (remove_Image s),
                  Render \<lparr>header = [CString ''Tag'', CString ''Created'', CString ''Digest'',
                                      CString ''Size''],
                            rows = map (removed_row w) (removed_Manifests removed),
                            footer = [CString ''Total'',
                                      CString (Sprintf_d_s (length (removed_Manifests removed))
                                                 (HumanSize w totalSize))]\<rparr>]))))"

subsection \<open>Prune\<close>

definition pruneAllWarning :: string where
  "pruneAllWarning =
     ''This will remove all manifests from the database. Are you sure you want to continue?''"

text \<open>
  One round of the outer loop of \<open>ImagePruneCmd.Run\<close>: the rows of one image are
  appended, \<open>totalSize\<close> and \<open>totalManifest\<close> are advanced.
\<close>

definition prune_image ::
  "'t world \<Rightarrow> ImagePruneResponse_Image \<Rightarrow> cell list list \<times> 64 word \<times> nat \<Rightarrow>
    cell list list \<times> 64 word \<times> nat" where
  "prune_image w img st =
     (case st of (rs, totalSize, totalManifest) \<Rightarrow>
        (rs @ map (removed_row w) (pruned_Manifests img),
         add_sizes totalSize (pruned_Manifests img),
         totalManifest + length (pruned_Manifests img)))"

text \<open>
  \<open>ImagePruneCmd.Run\<close> after the confirmation: the remote call and the output.
  \<open>evs\<close> are the effects so far.
\<close>

definition prune_call :: "'t world \<Rightarrow> ImagePruneCmd \<Rightarrow> event list \<Rightarrow> outcome \<times> event list" where
  "prune_call w s evs =
     (case rpc_ImagePrune w (prune_GRPCAuthority s) of
        Inl err \<Rightarrow> (Returned_err err, evs @ [Call_ImagePrune (prune_GRPCAuthority s)])
      | Inr removed \<Rightarrow>
          (if length (pruned_Images removed) = 0 then
             (Returned_nil,
              evs @ [Call_ImagePrune (prune_GRPCAuthority s),
                        Println ''Nothing to be removed from the database''])
           else
             (case fold (prune_image w) (pruned_Images removed) ([], 0, 0) of
                (rs, totalSize, totalManifest) \<Rightarrow>
                  (Returned_nil,
                   evs @ [Call_ImagePrune (prune_GRPCAuthority s),
                             Render \<lparr>header = [CString ''Tag'', CString ''Created'',
                                                 CString ''Digest'', CString ''Size''],
                                       rows = rs,
                                       footer = [CString ''Total'',
                                                 CString (Sprintf_d_s totalManifest
                                                            (HumanSize w totalSize))]\<rparr>]))))"

text \<open>
  \<open>ImagePruneCmd.Run\<close>. \<open>survey.AskOne\<close> returns an error, or stores the answer in
  \<open>confirmed\<close>.
\<close>

definition ImagePruneCmd_Run :: "'t world \<Rightarrow> ImagePruneCmd \<Rightarrow> outcome \<times> event list" where
  "ImagePruneCmd_Run w s =
     (case grpc_NewClient w (prune_GRPCAuthority s) of
        Some err \<Rightarrow> (Returned_err err, [])
      | None \<Rightarrow>
          (if \<not> Force s then
             (case survey_AskOne w pruneAllWarning of
                Inl err \<Rightarrow> (Returned_err err, [Ask pruneAllWarning])
              | Inr confirmed \<Rightarrow>
                  (if \<not> confirmed then (Returned_nil, [Ask pruneAllWarning])
                   else prune_call w s [Ask pruneAllWarning]))
           else prune_call w s []))"

subsection \<open>Sorting\<close>

text \<open>
  What \<open>sort.Slice\<close> promises for a comparison that is a strict weak ordering: the
  slice is permuted, and afterwards no element is less than one before it. The order of
  elements of which neither is less than the other is not promised (the sort is not
  stable).
\<close>

definition strict_weak :: "('a \<Rightarrow> 'a \<Rightarrow> bool) \<Rightarrow> bool" where
  "strict_weak lt \<longleftrightarrow>
     (\<forall>a b. lt a b \<longrightarrow> \<not> lt b a) \<and>
     (\<forall>a b c. \<not> lt a b \<and> \<not> lt b c \<longrightarrow> \<not> lt a c)"

definition sort_Slice_spec :: "(('a \<Rightarrow> 'a \<Rightarrow> bool) \<Rightarrow> 'a list \<Rightarrow> 'a list) \<Rightarrow> bool" where
  "sort_Slice_spec srt \<longleftrightarrow>
     (\<forall>lt xs. strict_weak lt \<longrightarrow>
        mset (srt lt xs) = mset xs \<and> sorted_wrt (\<lambda>a b. \<not> lt b a) (srt lt xs))"

text \<open>
  The sort that \<open>sort.Slice\<close> runs on a slice of at most 12 elements,
  \<open>insertionSortLessFunc\<close>: each element in turn is swapped towards the front while
  it is less than its left neighbour. \<open>insert_left\<close> is the inner loop; the part of
  the slice already sorted is held in reverse, nearest neighbour first.
\<close>

fun insert_left :: "('a \<Rightarrow> 'a \<Rightarrow> bool) \<Rightarrow> 'a \<Rightarrow> 'a list \<Rightarrow> 'a list" where
  "insert_left lt x [] = [x]"
| "insert_left lt x (y # ys) =
     (if lt x y then y # insert_left lt x ys else x # y # ys)"

definition insertionSort :: "('a \<Rightarrow> 'a \<Rightarrow> bool) \<Rightarrow> 'a list \<Rightarrow> 'a list" where
  "insertionSort lt xs = rev (fold (insert_left lt) xs [])"

section \<open>The webhook notifier (package webhook)\<close>

subsection \<open>Configuration, requests and collaborators\<close>

text \<open>
  \<open>model.Meta\<close> and \<open>model.NotifWebhook\<close>, with the fields \<open>Send\<close> reads.
  \<open>Headers\<close> is a Go map: its pairs are listed in the order the \<open>range\<close> loop
  visits them, which Go leaves open. \<open>Timeout\<close> is a pointer to a duration.
\<close>

record Meta =
  UserAgent :: string

record NotifWebhook =
  Endpoint :: string
  Headers :: "(string \<times> string) list"
  Timeout :: "nat option"

record Client =
  cfg :: NotifWebhook
  meta :: Meta

text \<open>
  An \<open>http.Request\<close> as \<open>Send\<close> builds it: \<open>Header\<close> maps a key to its values in
  the order they were added; \<open>ctx_timeout\<close> is the timeout of the context the request
  carries.
\<close>

record Request =
  Method :: string
  URL :: string
  Body :: string
  Header :: "string \<rightharpoonup> string list"
  ctx_timeout :: nat

record Response =
  StatusCode :: int

text \<open>
  The collaborators of \<open>Send\<close>: \<open>msg.New\<close> and \<open>Message.RenderJSON\<close> (the rendering
  of the entry, \<open>'e\<close>, through a message, \<open>'m\<close>), the checks of
  \<open>http.NewRequestWithContext\<close> on the method and the URL,
  \<open>textproto.CanonicalMIMEHeaderKey\<close>, and the transport \<open>http.Client.Do\<close>, which
  answers a request with an error or a response.
\<close>

record ('e, 'm) net =
  msg_New :: "Meta \<Rightarrow> 'e \<Rightarrow> error + 'm"
  RenderJSON :: "'m \<Rightarrow> error + string"
  http_NewRequest :: "string \<Rightarrow> string \<Rightarrow> error option"
  CanonicalMIMEHeaderKey :: "string \<Rightarrow> string"
  hc_Do :: "Request \<Rightarrow> error + Response"

subsection \<open>Headers\<close>

text \<open>\<open>Header.Add\<close>, \<open>Header.Set\<close> and \<open>Header.Get\<close> of net/http.\<close>

definition Header_Add ::
  "(string \<Rightarrow> string) \<Rightarrow> string \<Rightarrow> string \<Rightarrow> (string \<rightharpoonup> string list) \<Rightarrow> (string \<rightharpoonup> string list)" where
  "Header_Add canon key v h =
     h(canon key \<mapsto> (case h (canon key) of None \<Rightarrow> [] | Some vs \<Rightarrow> vs) @ [v])"

definition Header_Set ::
  "(string \<Rightarrow> string) \<Rightarrow> string \<Rightarrow> string \<Rightarrow> (string \<rightharpoonup> string list) \<Rightarrow> (string \<rightharpoonup> string list)" where
  "Header_Set canon key v h = h(canon key \<mapsto> [v])"

definition Header_Get :: "(string \<Rightarrow> string) \<Rightarrow> string \<Rightarrow> (string \<rightharpoonup> string list) \<Rightarrow> string" where
  "Header_Get canon key h =
     (case h (canon key) of None \<Rightarrow> [] | Some [] \<Rightarrow> [] | Some (v # _) \<Rightarrow> v)"

text \<open>
  The headers of the request of \<open>Send\<close>: the custom headers are added to the empty
  header of the new request, then \<open>User-Agent\<close> is set.
\<close>

definition send_headers :: "(string \<Rightarrow> string) \<Rightarrow> Client \<Rightarrow> (string \<rightharpoonup> string list)" where
  "send_headers canon c =
     (let h0 = Map.empty;
          h1 = (if length (Headers (cfg c)) > 0
                then fold (\<lambda>kv h. Header_Add canon (fst kv) (snd kv) h) (Headers (cfg c)) h0
                else h0)
      in Header_Set canon ''User-Agent'' (UserAgent (meta c)) h1)"

subsection \<open>Send\<close>

text \<open>
  \<open>Client.Send\<close>: its outcome and the requests it handed to the transport, in order.
  \<open>*c.cfg.Timeout\<close> reads through the pointer \<open>Timeout\<close>: on nil \<open>Send\<close> panics.
  The response is not read; cancelling the context and closing the response body
  (deferred) have no part in the outcome and are left out.
\<close>

definition Send :: "('e, 'm) net \<Rightarrow> Client \<Rightarrow> 'e \<Rightarrow> outcome \<times> Request list" where
  "Send n c entry =
     (case msg_New n (meta c) entry of
        Inl err \<Rightarrow> (Returned_err err, [])
      | Inr message \<Rightarrow>
          (case RenderJSON n message of
             Inl err \<Rightarrow> (Returned_err err, [])
           | Inr body \<Rightarrow>
               (case Timeout (cfg c) of
                  None \<Rightarrow> (Panicked, [])
                | Some timeout \<Rightarrow>
                    (case http_NewRequest n ''POST'' (Endpoint (cfg c)) of
                       Some err \<Rightarrow> (Returned_err err, [])
                     | None \<Rightarrow>
                         (let req = \<lparr>Method = ''POST'', URL = Endpoint (cfg c), Body = body,
                                     Header = send_headers (CanonicalMIMEHeaderKey n) c,
                                     ctx_timeout = timeout\<rparr>
                          in (case hc_Do n req of
                                Inl err \<Rightarrow> (Returned_err err, [req])
                              | Inr resp \<Rightarrow> (Returned_nil, [req])))))))"

section \<open>Example inputs\<close>

text \<open>
  Concrete collaborators and inputs, on which the theorems below are instantiated.
  \<open>ascii_ToUpper\<close> is \<open>unicode.ToUpper\<close> on the ASCII letters; on a name of ASCII
  bytes, \<open>map ascii_ToUpper\<close> is \<open>strings.Map(unicode.ToUpper, \<cdot>)\<close>. In
  \<open>ex_world\<close> instants are nanoseconds since the epoch, the remote service answers
  every call, and the prompt is answered "no".
\<close>

definition ascii_ToUpper :: "char \<Rightarrow> char" where
  "ascii_ToUpper c =
     (case map_of (zip ''abcdefghijklmnopqrstuvwxyz'' ''ABCDEFGHIJKLMNOPQRSTUVWXYZ'') c of
        None \<Rightarrow> c
      | Some u \<Rightarrow> u)"

definition ex_AsTime :: "Timestamp option \<Rightarrow> int" where
  "ex_AsTime ts =
     (case ts of None \<Rightarrow> 0 | Some t \<Rightarrow> sint (Seconds t) * 1000000000 + sint (Nanos t))"

definition ex_manifest :: "string \<Rightarrow> 64 word \<Rightarrow> Manifest" where
  "ex_manifest tag secs =
     \<lparr>Tag = tag, Created = Some \<lparr>Seconds = secs, Nanos = 0\<rparr>, Digest = ''sha256:0'', Size = 1000\<rparr>"

definition ex_image :: "string \<Rightarrow> ImageListResponse_Image" where
  "ex_image name =
     \<lparr>Name = name, ManifestsCount = 1, Latest = Some (ex_manifest ''latest'' 5)\<rparr>"

definition ex_world :: "int world" where
  "ex_world =
     \<lparr>grpc_NewClient = (\<lambda>_. None),
      rpc_ImageList = (\<lambda>_. Inr \<lparr>Images = [ex_image ''Zebra'', ex_image ''alpine'']\<rparr>),
      rpc_ImageInspect = (\<lambda>_ name. Inr \<lparr>Image = Some \<lparr>inspect_Name = name,
          Manifests = [ex_manifest ''1.0'' 10, ex_manifest ''3.0'' 30, ex_manifest ''2.0'' 20,
                       ex_manifest ''3.0-rc'' 30]\<rparr>\<rparr>),
      rpc_ImageRemove = (\<lambda>_ _. Inr \<lparr>removed_Manifests = []\<rparr>),
      rpc_ImagePrune = (\<lambda>_. Inr \<lparr>pruned_Images = []\<rparr>),
      survey_AskOne = (\<lambda>_. Inr False),
      to_upper = map ascii_ToUpper,
      AsTime = ex_AsTime,
      Format_RFC3339 = (\<lambda>t. fmt_d (nat t)),
      HumanSize = (\<lambda>n. if n = 0 then ''0B'' else fmt_d (unat n) @ ''B''),
      Marshal_list = (\<lambda>_. ([], Some (Error ''marshal''))),
      Marshal_inspect = (\<lambda>_. ([], Some (Error ''marshal''))),
      pretty_Pretty = (\<lambda>b. b)\<rparr>"


definition ex_list_cmd :: ImageListCmd where
  "ex_list_cmd = \<lparr>list_Raw = False, list_GRPCAuthority = ''127.0.0.1:42286''\<rparr>"

definition ex_inspect_cmd :: ImageInspectCmd where
  "ex_inspect_cmd =
     \<lparr>inspect_Image = ''alpine'', inspect_Raw = False, inspect_GRPCAuthority = ''127.0.0.1:42286''\<rparr>"

definition ex_remove_cmd :: ImageRemoveCmd where
  "ex_remove_cmd = \<lparr>remove_Image = ''alpine'', remove_GRPCAuthority = ''127.0.0.1:42286''\<rparr>"

definition ex_prune_cmd :: "bool \<Rightarrow> ImagePruneCmd" where
  "ex_prune_cmd force = \<lparr>Force = force, prune_GRPCAuthority = ''127.0.0.1:42286''\<rparr>"

definition prompt_error_world :: "int world" where
  "prompt_error_world = ex_world\<lparr>survey_AskOne := (\<lambda>_. Inl (Error ''interrupt''))\<rparr>"

text \<open>The remote service answers \<open>ImageInspect\<close> with a response that carries no image.\<close>

definition no_image_world :: "int world" where
  "no_image_world = ex_world\<lparr>rpc_ImageInspect := (\<lambda>_ _. Inr \<lparr>Image = None\<rparr>)\<rparr>"

definition ex_list_raw_cmd :: ImageListCmd where
  "ex_list_raw_cmd = \<lparr>list_Raw = True, list_GRPCAuthority = ''127.0.0.1:42286''\<rparr>"

definition ex_inspect_raw_cmd :: ImageInspectCmd where
  "ex_inspect_raw_cmd =
     \<lparr>inspect_Image = ''alpine'', inspect_Raw = True, inspect_GRPCAuthority = ''127.0.0.1:42286''\<rparr>"

text \<open>
  A transport that answers every request with status 500, except that the host
  \<open>down.example\<close> refuses the connection; an entry that cannot be rendered; an
  endpoint that cannot be parsed; and a client whose custom headers carry a
  \<open>User-Agent\<close> of their own. The header keys of the example are in canonical form
  already.
\<close>

definition ex_net :: "(string, string) net" where
  "ex_net =
     \<lparr>msg_New = (\<lambda>m e. if e = [] then Inl (Error ''empty entry'') else Inr e),
      RenderJSON = (\<lambda>m. if m = ''unrenderable'' then Inl (Error ''json'') else Inr (''{'' @ m @ ''}'')),
      http_NewRequest =
        (\<lambda>method url. if url = ''://bad'' then Some (Error ''missing protocol scheme'') else None),
      CanonicalMIMEHeaderKey = (\<lambda>key. key),
      hc_Do = (\<lambda>req. if URL req = ''http://down.example''
                       then Inl (Error ''connection refused'')
                       else Inr \<lparr>StatusCode = 500\<rparr>)\<rparr>"

definition ex_client :: "string \<Rightarrow> Client" where
  "ex_client endpoint =
     \<lparr>cfg = \<lparr>Endpoint = endpoint,
              Headers = [(''User-Agent'', ''custom-agent/1.0''), (''X-Token'', ''secret'')],
              Timeout = Some 10000000000\<rparr>,
      meta = \<lparr>UserAgent = ''diun/4.0''\<rparr>\<rparr>"

section \<open>Sorting: the insertion sort keeps the promise of \<open>sort.Slice\<close>\<close>

lemma mset_insert_left: "mset (insert_left lt x ys) = add_mset x (mset ys)"
  by (induction ys) auto

lemma mset_fold_insert_left: "mset (fold (insert_left lt) xs acc) = mset xs + mset acc"
  by (induction xs arbitrary: acc) (auto simp: mset_insert_left)

lemma set_insert_left: "set (insert_left lt x ys) = insert x (set ys)"
  by (induction ys) auto

lemma sorted_insert_left:
  assumes "strict_weak lt" and "sorted_wrt (\<lambda>a b. \<not> lt a b) ys"
  shows "sorted_wrt (\<lambda>a b. \<not> lt a b) (insert_left lt x ys)"
  using assms(2)
proof (induction ys)
  case Nil
  then show ?case by simp
next
  case (Cons y ys)
  from assms(1) have asym: "\<And>a b. lt a b \<Longrightarrow> \<not> lt b a"
    and ntrans: "\<And>a b c. \<not> lt a b \<Longrightarrow> \<not> lt b c \<Longrightarrow> \<not> lt a c"
    unfolding strict_weak_def by blast+
  show ?case
  proof (cases "lt x y")
    case True
    with Cons asym show ?thesis by (auto simp: set_insert_left)
  next
    case False
    with Cons ntrans show ?thesis by auto
  qed
qed

lemma sorted_fold_insert_left:
  "strict_weak lt \<Longrightarrow> sorted_wrt (\<lambda>a b. \<not> lt a b) acc \<Longrightarrow>
   sorted_wrt (\<lambda>a b. \<not> lt a b) (fold (insert_left lt) xs acc)"
  by (induction xs arbitrary: acc) (auto simp: sorted_insert_left)

lemma insertionSort_spec: "sort_Slice_spec insertionSort"
  unfolding sort_Slice_spec_def insertionSort_def
  by (auto simp: mset_fold_insert_left sorted_wrt_rev sorted_fold_insert_left)


lemma strict_weak_inspect_less: "strict_weak (inspect_less w)"
  unfolding strict_weak_def inspect_less_def by auto



section \<open>The example inputs, evaluated\<close>

lemma ex_world_sel:
  "grpc_NewClient ex_world = (\<lambda>_. None)"
  "rpc_ImageList ex_world = (\<lambda>_. Inr \<lparr>Images = [ex_image ''Zebra'', ex_image ''alpine'']\<rparr>)"
  "to_upper ex_world = map ascii_ToUpper"
  "AsTime ex_world = ex_AsTime"
  "survey_AskOne ex_world = (\<lambda>_. Inr False)"
  "rpc_ImageRemove ex_world = (\<lambda>_ _. Inr \<lparr>removed_Manifests = []\<rparr>)"
  "rpc_ImagePrune ex_world = (\<lambda>_. Inr \<lparr>pruned_Images = []\<rparr>)"
  "HumanSize ex_world 0 = ''0B''"
  "pretty_Pretty ex_world = (\<lambda>b. b)"
  "Marshal_list ex_world = (\<lambda>_. ([], Some (Error ''marshal'')))"
  "Marshal_inspect ex_world = (\<lambda>_. ([], Some (Error ''marshal'')))"
  by (simp_all add: ex_world_def)





section \<open>List: the order of the output\<close>

text \<open>
  The table of List, when every image carries its latest manifest: one row per image of
  the sorted response, in its order.
\<close>

lemma append_rows_Some:
  "\<forall>x \<in> set xs. f x \<noteq> None \<Longrightarrow> append_rows f xs = Some (map (\<lambda>x. the (f x)) xs)"
  by (induction xs) auto

lemma list_output_table:
  assumes "\<not> list_Raw s" and "Images il \<noteq> []" and "\<forall>i \<in> set (Images il). Latest i \<noteq> None"
  shows "list_output w s il =
           (Returned_nil,
            [Call_ImageList (list_GRPCAuthority s),
             Render \<lparr>header = [CString ''Name'', CString ''Manifests Count'',
                                 CString ''Latest Tag'', CString ''Latest Created'',
                                 CString ''Latest Digest''],
                       rows = map (\<lambda>i. the (list_row w i)) (Images il),
                       footer = [CString ''Total'', CInt (length (Images il))]\<rparr>])"
proof -
  have "\<forall>i \<in> set (Images il). list_row w i \<noteq> None"
    using assms(3) by (auto simp: list_row_def split: option.splits)
  then show ?thesis
    using assms(1,2) by (simp add: list_output_def append_rows_Some)
qed




text \<open>The run of the witness, in full: \<open>alpine\<close> before \<open>Zebra\<close>, two in total.\<close>

lemma list_example_run:
  "ImageListCmd_Run insertionSort ex_world ex_list_cmd =
     (Returned_nil,
      [Call_ImageList ''127.0.0.1:42286'',
       Render \<lparr>header = [CString ''Name'', CString ''Manifests Count'', CString ''Latest Tag'',
                           CString ''Latest Created'', CString ''Latest Digest''],
                 rows = [the (list_row ex_world (ex_image ''alpine'')),
                         the (list_row ex_world (ex_image ''Zebra''))],
                 footer = [CString ''Total'', CInt 2]\<rparr>])"
  by (simp add: ImageListCmd_Run_def ex_world_sel ex_list_cmd_def insertionSort_def list_less_def
      list_output_def list_row_def ex_image_def ascii_ToUpper_def)


section \<open>Inspect: the order of the output\<close>

text \<open>
  Claim C6. When the connection is made and the remote \<open>ImageInspect\<close> call answers
  with an image, the Inspect command outputs (in raw and in table mode alike) the
  manifests of that image in descending order of creation time: no manifest stands
  before one created later, and manifests created at the same instant stand in any
  order. The output is a permutation of the manifests received: each is there exactly
  once, and the footer counts them all. This holds for every sort that keeps the promise
  of \<open>sort.Slice\<close>.
\<close>

theorem inspect_sorted_by_creation_time:
  assumes "sort_Slice_spec srt"
    and "grpc_NewClient w (inspect_GRPCAuthority s) = None"
    and "rpc_ImageInspect w (inspect_GRPCAuthority s) (inspect_Image s) = Inr ii"
    and "Image ii = Some img"
  shows "\<exists>ms. mset ms = mset (Manifests img) \<and>
           sorted_wrt (\<lambda>a b. AsTime w (Created b) \<le> AsTime w (Created a)) ms \<and>
           ImageInspectCmd_Run srt w s =
             (Returned_nil,
              [Call_ImageInspect (inspect_GRPCAuthority s) (inspect_Image s),
               if inspect_Raw s
               then Println (pretty_Pretty w
                      (fst (Marshal_inspect w (ii\<lparr>Image := Some (img\<lparr>Manifests := ms\<rparr>)\<rparr>))))
               else Render \<lparr>header = [CString ''Tag'', CString ''Created'', CString ''Digest''],
                             rows = map (inspect_row w) ms,
                             footer = [CString ''Total'', CInt (length (Manifests img))]\<rparr>])"
proof -
  let ?ms = "srt (inspect_less w) (Manifests img)"
  have spec: "mset ?ms = mset (Manifests img) \<and> sorted_wrt (\<lambda>a b. \<not> inspect_less w b a) ?ms"
    using assms(1) strict_weak_inspect_less [of w] unfolding sort_Slice_spec_def by blast
  then have perm: "mset ?ms = mset (Manifests img)"
    and sorted: "sorted_wrt (\<lambda>a b. AsTime w (Created b) \<le> AsTime w (Created a)) ?ms"
    by (simp_all add: inspect_less_def not_less)
  from perm have len: "length ?ms = length (Manifests img)"
    by (rule mset_eq_length)
  have run: "ImageInspectCmd_Run srt w s =
             (Returned_nil,
              [Call_ImageInspect (inspect_GRPCAuthority s) (inspect_Image s),
               if inspect_Raw s
               then Println (pretty_Pretty w
                      (fst (Marshal_inspect w (ii\<lparr>Image := Some (img\<lparr>Manifests := ?ms\<rparr>)\<rparr>))))
               else Render \<lparr>header = [CString ''Tag'', CString ''Created'', CString ''Digest''],
                             rows = map (inspect_row w) ?ms,
                             footer = [CString ''Total'', CInt (length (Manifests img))]\<rparr>])"
    using assms(2,3,4) len by (simp add: ImageInspectCmd_Run_def Let_def)
  from perm sorted run show ?thesis by blast
qed


lemma ex_world_inspect:
  "rpc_ImageInspect ex_world = (\<lambda>_ name. Inr \<lparr>Image = Some \<lparr>inspect_Name = name,
          Manifests = [ex_manifest ''1.0'' 10, ex_manifest ''3.0'' 30, ex_manifest ''2.0'' 20,
                       ex_manifest ''3.0-rc'' 30]\<rparr>\<rparr>)"
  by (simp add: ex_world_def)

text \<open>
  Witness for claim C6: four manifests, two of them created at the same instant, sorted
  by the insertion sort.
\<close>

theorem inspect_sorted_by_creation_time_witness:
  "\<exists>ms. mset ms = mset [ex_manifest ''1.0'' 10, ex_manifest ''3.0'' 30, ex_manifest ''2.0'' 20,
                         ex_manifest ''3.0-rc'' 30] \<and>
        sorted_wrt (\<lambda>a b. AsTime ex_world (Created b) \<le> AsTime ex_world (Created a)) ms \<and>
        ImageInspectCmd_Run insertionSort ex_world ex_inspect_cmd =
          (Returned_nil,
           [Call_ImageInspect ''127.0.0.1:42286'' ''alpine'',
            Render \<lparr>header = [CString ''Tag'', CString ''Created'', CString ''Digest''],
                      rows = map (inspect_row ex_world) ms,
                      footer = [CString ''Total'', CInt 4]\<rparr>])"
proof -
  have h1: "sort_Slice_spec (insertionSort :: (Manifest \<Rightarrow> Manifest \<Rightarrow> bool) \<Rightarrow> _)"
    by (rule insertionSort_spec)
  have h2: "grpc_NewClient ex_world (inspect_GRPCAuthority ex_inspect_cmd) = None"
    by (simp add: ex_world_sel)
  have h3: "rpc_ImageInspect ex_world (inspect_GRPCAuthority ex_inspect_cmd) (inspect_Image ex_inspect_cmd) =
      Inr \<lparr>Image = Some \<lparr>inspect_Name = ''alpine'',
          Manifests = [ex_manifest ''1.0'' 10, ex_manifest ''3.0'' 30, ex_manifest ''2.0'' 20,
                       ex_manifest ''3.0-rc'' 30]\<rparr>\<rparr>"
    by (simp add: ex_world_inspect ex_inspect_cmd_def)
  have h4: "Image \<lparr>Image = Some \<lparr>inspect_Name = ''alpine'',
          Manifests = [ex_manifest ''1.0'' 10, ex_manifest ''3.0'' 30, ex_manifest ''2.0'' 20,
                       ex_manifest ''3.0-rc'' 30]\<rparr>\<rparr> =
      Some \<lparr>inspect_Name = ''alpine'',
          Manifests = [ex_manifest ''1.0'' 10, ex_manifest ''3.0'' 30, ex_manifest ''2.0'' 20,
                       ex_manifest ''3.0-rc'' 30]\<rparr>"
    by simp
  show ?thesis
    using inspect_sorted_by_creation_time [OF h1 h2 h3 h4]
    by (simp add: ex_inspect_cmd_def eval_nat_numeral)
qed

text \<open>The run of the witness, in full: the two manifests of instant 30 come first.\<close>

lemma inspect_example_run:
  "ImageInspectCmd_Run insertionSort ex_world ex_inspect_cmd =
     (Returned_nil,
      [Call_ImageInspect ''127.0.0.1:42286'' ''alpine'',
       Render \<lparr>header = [CString ''Tag'', CString ''Created'', CString ''Digest''],
                 rows = map (inspect_row ex_world)
                   [ex_manifest ''3.0'' 30, ex_manifest ''3.0-rc'' 30, ex_manifest ''2.0'' 20,
                    ex_manifest ''1.0'' 10],
                 footer = [CString ''Total'', CInt 4]\<rparr>])"
  by (simp add: ImageInspectCmd_Run_def ex_world_sel ex_world_inspect ex_inspect_cmd_def
      insertionSort_def inspect_less_def ex_manifest_def ex_AsTime_def)

text \<open>A response without an image makes Inspect panic, in either output mode.\<close>

lemma inspect_without_image_panics:
  "grpc_NewClient w (inspect_GRPCAuthority s) = None \<Longrightarrow>
   rpc_ImageInspect w (inspect_GRPCAuthority s) (inspect_Image s) = Inr ii \<Longrightarrow>
   Image ii = None \<Longrightarrow>
   fst (ImageInspectCmd_Run srt w s) = Panicked"
  by (simp add: ImageInspectCmd_Run_def)

section \<open>Raw output\<close>

text \<open>
  Claim C10, as amended. In raw mode, once the remote call has succeeded (for Inspect:
  with a response that carries an image), List and Inspect print the pretty-printed
  bytes \<open>b\<close> that \<open>protojson.Marshal\<close> produced and return nil, whatever error
  \<open>e\<close> the marshalling returned with them: the error is not looked at, and the
  marshalling never makes the command fail.
\<close>

theorem raw_output_ignores_marshal_error:
  "(grpc_NewClient w (list_GRPCAuthority ls) = None \<and>
    rpc_ImageList w (list_GRPCAuthority ls) = Inr il \<and> list_Raw ls \<and>
    Marshal_list w (il\<lparr>Images := srt1 (list_less w) (Images il)\<rparr>) = (b1, e1) \<longrightarrow>
    ImageListCmd_Run srt1 w ls =
      (Returned_nil, [Call_ImageList (list_GRPCAuthority ls), Println (pretty_Pretty w b1)])) \<and>
   (grpc_NewClient w (inspect_GRPCAuthority ic) = None \<and>
    rpc_ImageInspect w (inspect_GRPCAuthority ic) (inspect_Image ic) = Inr ii \<and>
    Image ii = Some img \<and> inspect_Raw ic \<and>
    Marshal_inspect w
      (ii\<lparr>Image := Some (img\<lparr>Manifests := srt2 (inspect_less w) (Manifests img)\<rparr>)\<rparr>) = (b2, e2) \<longrightarrow>
    ImageInspectCmd_Run srt2 w ic =
      (Returned_nil,
       [Call_ImageInspect (inspect_GRPCAuthority ic) (inspect_Image ic),
        Println (pretty_Pretty w b2)]))"
  by (simp add: ImageListCmd_Run_def list_output_def ImageInspectCmd_Run_def Let_def)

text \<open>
  Witness for claim C10: in \<open>ex_world\<close> the marshalling fails with no bytes; both
  commands print the empty line and return nil.
\<close>

theorem raw_output_ignores_marshal_error_witness:
  "Marshal_list ex_world
     \<lparr>Images = insertionSort (list_less ex_world) [ex_image ''Zebra'', ex_image ''alpine'']\<rparr> =
     ([], Some (Error ''marshal'')) \<and>
   ImageListCmd_Run insertionSort ex_world ex_list_raw_cmd =
     (Returned_nil, [Call_ImageList ''127.0.0.1:42286'', Println []]) \<and>
   ImageInspectCmd_Run insertionSort ex_world ex_inspect_raw_cmd =
     (Returned_nil, [Call_ImageInspect ''127.0.0.1:42286'' ''alpine'', Println []])"
proof -
  let ?il = "\<lparr>Images = [ex_image ''Zebra'', ex_image ''alpine'']\<rparr>"
  let ?img = "\<lparr>inspect_Name = ''alpine'',
          Manifests = [ex_manifest ''1.0'' 10, ex_manifest ''3.0'' 30, ex_manifest ''2.0'' 20,
                       ex_manifest ''3.0-rc'' 30]\<rparr>"
  have l: "grpc_NewClient ex_world (list_GRPCAuthority ex_list_raw_cmd) = None \<and>
    rpc_ImageList ex_world (list_GRPCAuthority ex_list_raw_cmd) = Inr ?il \<and>
    list_Raw ex_list_raw_cmd \<and>
    Marshal_list ex_world (?il\<lparr>Images := insertionSort (list_less ex_world) (Images ?il)\<rparr>) =
      ([], Some (Error ''marshal''))"
    by (simp add: ex_world_sel ex_list_raw_cmd_def)
  have i: "grpc_NewClient ex_world (inspect_GRPCAuthority ex_inspect_raw_cmd) = None \<and>
    rpc_ImageInspect ex_world (inspect_GRPCAuthority ex_inspect_raw_cmd)
      (inspect_Image ex_inspect_raw_cmd) = Inr \<lparr>Image = Some ?img\<rparr> \<and>
    Image \<lparr>Image = Some ?img\<rparr> = Some ?img \<and> inspect_Raw ex_inspect_raw_cmd \<and>
    Marshal_inspect ex_world
      (\<lparr>Image = Some ?img\<rparr>\<lparr>Image := Some (?img\<lparr>Manifests :=
          insertionSort (inspect_less ex_world) (Manifests ?img)\<rparr>)\<rparr>) =
      ([], Some (Error ''marshal''))"
    by (simp add: ex_world_sel ex_world_inspect ex_inspect_raw_cmd_def)
  note t = raw_output_ignores_marshal_error
    [of ex_world ex_list_raw_cmd ?il insertionSort "[]" "Some (Error ''marshal'')"
        ex_inspect_raw_cmd "\<lparr>Image = Some ?img\<rparr>" ?img insertionSort "[]"
        "Some (Error ''marshal'')"]
  from t [THEN conjunct1, THEN mp, OF l] t [THEN conjunct2, THEN mp, OF i] l
  show ?thesis
    by (simp add: ex_world_sel ex_list_raw_cmd_def ex_inspect_raw_cmd_def)
qed

text \<open>
  Counterexample to claim C10 as stated: the remote \<open>ImageInspect\<close> call succeeds with
  a response that carries no image; Inspect in raw mode reads \<open>ii.Image.Manifests\<close>
  for the sort, before it looks at the mode, and panics: it does not return success, and
  it prints nothing.
\<close>

theorem raw_inspect_without_image_counterexample:
  "grpc_NewClient no_image_world (inspect_GRPCAuthority ex_inspect_raw_cmd) = None \<and>
   rpc_ImageInspect no_image_world (inspect_GRPCAuthority ex_inspect_raw_cmd)
     (inspect_Image ex_inspect_raw_cmd) = Inr \<lparr>Image = None\<rparr> \<and>
   inspect_Raw ex_inspect_raw_cmd \<and>
   ImageInspectCmd_Run insertionSort no_image_world ex_inspect_raw_cmd =
     (Panicked, [Call_ImageInspect ''127.0.0.1:42286'' ''alpine'']) \<and>
   fst (ImageInspectCmd_Run insertionSort no_image_world ex_inspect_raw_cmd) \<noteq> Returned_nil"
  by (simp add: ImageInspectCmd_Run_def no_image_world_def ex_world_sel ex_inspect_raw_cmd_def)

text \<open>
  That panic is the only way Inspect fails in raw mode after a successful remote call,
  and the table mode fails in the same way on the same response.
\<close>

lemma inspect_raw_failure_is_shared:
  "grpc_NewClient w (inspect_GRPCAuthority ic) = None \<Longrightarrow>
   rpc_ImageInspect w (inspect_GRPCAuthority ic) (inspect_Image ic) = Inr ii \<Longrightarrow>
   inspect_Raw ic \<Longrightarrow>
   fst (ImageInspectCmd_Run srt w ic) \<noteq> Returned_nil \<Longrightarrow>
   Image ii = None \<and>
   ImageInspectCmd_Run srt w (ic\<lparr>inspect_Raw := False\<rparr>) = ImageInspectCmd_Run srt w ic"
  by (auto simp: ImageInspectCmd_Run_def Let_def split: option.splits)

section \<open>Prune: the confirmation\<close>

text \<open>
  Claim C1, as amended. With \<open>Force\<close> unset, on every outcome of the prompt other than
  the answer "yes" the Prune command makes no remote \<open>ImagePrune\<close> call: its only
  effect is the prompt. When the answer is "no" it returns nil; when the prompt fails it
  returns the prompt's error.
\<close>

theorem prune_unconfirmed_makes_no_remote_call:
  assumes "grpc_NewClient w (prune_GRPCAuthority s) = None"
    and "\<not> Force s"
    and "survey_AskOne w pruneAllWarning \<noteq> Inr True"
  shows "ImagePruneCmd_Run w s =
           (case survey_AskOne w pruneAllWarning of
              Inl err \<Rightarrow> Returned_err err
            | Inr confirmed \<Rightarrow> Returned_nil,
            [Ask pruneAllWarning]) \<and>
         (\<forall>a. Call_ImagePrune a \<notin> set (snd (ImagePruneCmd_Run w s)))"
  using assms by (auto simp: ImagePruneCmd_Run_def split: sum.splits)

text \<open>
  Witness for claim C1: the prompt answered "no" (\<open>ex_world\<close>), and the prompt
  interrupted (\<open>prompt_error_world\<close>).
\<close>

theorem prune_unconfirmed_makes_no_remote_call_witness:
  "survey_AskOne ex_world pruneAllWarning = Inr False \<and>
   ImagePruneCmd_Run ex_world (ex_prune_cmd False) = (Returned_nil, [Ask pruneAllWarning]) \<and>
   survey_AskOne prompt_error_world pruneAllWarning = Inl (Error ''interrupt'') \<and>
   ImagePruneCmd_Run prompt_error_world (ex_prune_cmd False) =
     (Returned_err (Error ''interrupt''), [Ask pruneAllWarning])"
proof -
  have a: "grpc_NewClient ex_world (prune_GRPCAuthority (ex_prune_cmd False)) = None"
    and b: "\<not> Force (ex_prune_cmd False)"
    and c: "survey_AskOne ex_world pruneAllWarning = Inr False"
    by (simp_all add: ex_world_sel ex_prune_cmd_def)
  have a': "grpc_NewClient prompt_error_world (prune_GRPCAuthority (ex_prune_cmd False)) = None"
    and c': "survey_AskOne prompt_error_world pruneAllWarning = Inl (Error ''interrupt'')"
    by (simp_all add: prompt_error_world_def ex_world_sel)
  from c have d: "survey_AskOne ex_world pruneAllWarning \<noteq> Inr True" by simp
  from c' have d': "survey_AskOne prompt_error_world pruneAllWarning \<noteq> Inr True" by simp
  from prune_unconfirmed_makes_no_remote_call [OF a b d]
    prune_unconfirmed_makes_no_remote_call [OF a' b d'] c c'
  show ?thesis by simp
qed

text \<open>
  Counterexample to claim C1 as stated: with \<open>Force\<close> unset and the prompt failing,
  the command does not return success; it returns the prompt's error.
\<close>

theorem prune_prompt_error_is_returned_counterexample:
  "\<not> Force (ex_prune_cmd False) \<and>
   survey_AskOne prompt_error_world pruneAllWarning = Inl (Error ''interrupt'') \<and>
   fst (ImagePruneCmd_Run prompt_error_world (ex_prune_cmd False)) = Returned_err (Error ''interrupt'') \<and>
   fst (ImagePruneCmd_Run prompt_error_world (ex_prune_cmd False)) \<noteq> Returned_nil"
  by (simp add: ImagePruneCmd_Run_def prompt_error_world_def ex_world_sel ex_prune_cmd_def)

section \<open>Prune and Remove: nothing removed\<close>

text \<open>
  Claim C8. When the Prune command reaches the remote call (forced, or confirmed) and
  the call succeeds with no removed image, the command prints
  \<open>Nothing to be removed from the database\<close> and returns nil; no table is rendered.
\<close>

theorem prune_nothing_removed:
  assumes "grpc_NewClient w (prune_GRPCAuthority s) = None"
    and "Force s \<or> survey_AskOne w pruneAllWarning = Inr True"
    and "rpc_ImagePrune w (prune_GRPCAuthority s) = Inr removed"
    and "pruned_Images removed = []"
  shows "ImagePruneCmd_Run w s =
           (Returned_nil,
            (if Force s then [] else [Ask pruneAllWarning]) @
            [Call_ImagePrune (prune_GRPCAuthority s),
             Println ''Nothing to be removed from the database'']) \<and>
         (\<forall>t. Render t \<notin> set (snd (ImagePruneCmd_Run w s)))"
  using assms by (auto simp: ImagePruneCmd_Run_def prune_call_def)

text \<open>Witness for claim C8: a forced prune of an empty database.\<close>

theorem prune_nothing_removed_witness:
  "ImagePruneCmd_Run ex_world (ex_prune_cmd True) =
     (Returned_nil,
      [Call_ImagePrune ''127.0.0.1:42286'', Println ''Nothing to be removed from the database''])"
proof -
  have a: "grpc_NewClient ex_world (prune_GRPCAuthority (ex_prune_cmd True)) = None"
    and b: "Force (ex_prune_cmd True) \<or> survey_AskOne ex_world pruneAllWarning = Inr True"
    and c: "rpc_ImagePrune ex_world (prune_GRPCAuthority (ex_prune_cmd True)) = Inr \<lparr>pruned_Images = []\<rparr>"
    and d: "pruned_Images \<lparr>pruned_Images = []\<rparr> = []"
    by (simp_all add: ex_world_sel ex_prune_cmd_def)
  from prune_nothing_removed [OF a b c d] show ?thesis
    by (simp add: ex_prune_cmd_def)
qed

text \<open>
  Claim C9. The Remove command has no such case: when the remote call succeeds with no
  removed manifest, it renders a table with its header, no row, and the footer
  \<open>Total\<close>, \<open>0 (0B)\<close>, given that \<open>units.HumanSize\<close> renders zero as \<open>0B\<close>.
\<close>

theorem remove_nothing_removed_renders_table:
  assumes "grpc_NewClient w (remove_GRPCAuthority s) = None"
    and "rpc_ImageRemove w (remove_GRPCAuthority s) (remove_Image s) = Inr removed"
    and "removed_Manifests removed = []"
    and "HumanSize w 0 = ''0B''"
  shows "ImageRemoveCmd_Run w s =
           (Returned_nil,
            [Call_ImageRemove (remove_GRPCAuthority s) (remove_Image s),
             Render \<lparr>header = [CString ''Tag'', CString ''Created'', CString ''Digest'',
                                 CString ''Size''],
                       rows = [],
                       footer = [CString ''Total'', CString ''0 (0B)'']\<rparr>])"
  using assms by (simp add: ImageRemoveCmd_Run_def add_sizes_def Sprintf_d_s_def fmt_d.simps [of 0])

text \<open>Witness for claim C9: the removal of an image without manifests.\<close>

theorem remove_nothing_removed_renders_table_witness:
  "HumanSize ex_world 0 = ''0B'' \<and>
   ImageRemoveCmd_Run ex_world ex_remove_cmd =
     (Returned_nil,
      [Call_ImageRemove ''127.0.0.1:42286'' ''alpine'',
       Render \<lparr>header = [CString ''Tag'', CString ''Created'', CString ''Digest'', CString ''Size''],
                 rows = [],
                 footer = [CString ''Total'', CString ''0 (0B)'']\<rparr>])"
proof -
  have a: "grpc_NewClient ex_world (remove_GRPCAuthority ex_remove_cmd) = None"
    and b: "rpc_ImageRemove ex_world (remove_GRPCAuthority ex_remove_cmd) (remove_Image ex_remove_cmd) =
            Inr \<lparr>removed_Manifests = []\<rparr>"
    and c: "removed_Manifests \<lparr>removed_Manifests = []\<rparr> = []"
    and d: "HumanSize ex_world 0 = ''0B''"
    by (simp_all add: ex_world_sel)
  from remove_nothing_removed_renders_table [OF a b c d] d show ?thesis
    by (simp add: ex_remove_cmd_def)
qed

section \<open>Send\<close>

lemma Header_Get_Set: "Header_Get canon key (Header_Set canon key v h) = v"
  by (simp add: Header_Get_def Header_Set_def)

lemma ex_net_sel:
  "msg_New ex_net = (\<lambda>m e. if e = [] then Inl (Error ''empty entry'') else Inr e)"
  "RenderJSON ex_net =
     (\<lambda>m. if m = ''unrenderable'' then Inl (Error ''json'') else Inr (''{'' @ m @ ''}''))"
  "http_NewRequest ex_net =
     (\<lambda>method url. if url = ''://bad'' then Some (Error ''missing protocol scheme'') else None)"
  "CanonicalMIMEHeaderKey ex_net = (\<lambda>key. key)"
  "hc_Do ex_net = (\<lambda>req. if URL req = ''http://down.example''
                       then Inl (Error ''connection refused'')
                       else Inr \<lparr>StatusCode = 500\<rparr>)"
  by (simp_all add: ex_net_def)

lemma ex_client_sel:
  "Endpoint (cfg (ex_client endpoint)) = endpoint"
  "Headers (cfg (ex_client endpoint)) =
     [(''User-Agent'', ''custom-agent/1.0''), (''X-Token'', ''secret'')]"
  "Timeout (cfg (ex_client endpoint)) = Some 10000000000"
  "UserAgent (meta (ex_client endpoint)) = ''diun/4.0''"
  by (simp_all add: ex_client_def)

lemma ex_send_ok:
  "Send ex_net (ex_client ''http://hook.example'') ''entry'' =
     (Returned_nil,
      [\<lparr>Method = ''POST'', URL = ''http://hook.example'', Body = ''{entry}'',
        Header = send_headers (\<lambda>key. key) (ex_client ''http://hook.example''),
        ctx_timeout = 10000000000\<rparr>])"
  by (simp add: Send_def ex_net_sel ex_client_sel)

lemma ex_send_down:
  "Send ex_net (ex_client ''http://down.example'') ''entry'' =
     (Returned_err (Error ''connection refused''),
      [\<lparr>Method = ''POST'', URL = ''http://down.example'', Body = ''{entry}'',
        Header = send_headers (\<lambda>key. key) (ex_client ''http://down.example''),
        ctx_timeout = 10000000000\<rparr>])"
  by (simp add: Send_def ex_net_sel ex_client_sel)

text \<open>
  Claim C2. Whatever the custom headers are, and in whatever order the map yields them,
  the header of the request of \<open>Send\<close> holds under \<open>User-Agent\<close> the configured agent
  string and nothing else, also when a custom header has that key; this is so for every
  request \<open>Send\<close> hands to the transport.
\<close>

theorem send_user_agent_is_configured:
  "send_headers canon c (canon ''User-Agent'') = Some [UserAgent (meta c)] \<and>
   Header_Get canon ''User-Agent'' (send_headers canon c) = UserAgent (meta c) \<and>
   (\<forall>req \<in> set (snd (Send n c entry)).
      Header_Get (CanonicalMIMEHeaderKey n) ''User-Agent'' (Header req) = UserAgent (meta c))"
proof -
  have a: "send_headers canon c (canon ''User-Agent'') = Some [UserAgent (meta c)]" for canon
    by (simp add: send_headers_def Header_Set_def Let_def)
  have b: "Header_Get canon ''User-Agent'' (send_headers canon c) = UserAgent (meta c)" for canon
    by (simp add: Header_Get_def a)
  have "\<forall>req \<in> set (snd (Send n c entry)).
      Header_Get (CanonicalMIMEHeaderKey n) ''User-Agent'' (Header req) = UserAgent (meta c)"
    by (auto simp: Send_def b Let_def split: sum.splits option.splits)
  with a b show ?thesis by blast
qed

text \<open>
  Witness for claim C2: the custom headers hold \<open>User-Agent: custom-agent/1.0\<close>; the
  request delivered carries \<open>diun/4.0\<close>.
\<close>

theorem send_user_agent_is_configured_witness:
  "(''User-Agent'', ''custom-agent/1.0'') \<in> set (Headers (cfg (ex_client ''http://hook.example''))) \<and>
   map (\<lambda>req. Header_Get (CanonicalMIMEHeaderKey ex_net) ''User-Agent'' (Header req))
     (snd (Send ex_net (ex_client ''http://hook.example'') ''entry'')) = [''diun/4.0'']"
  using send_user_agent_is_configured
    [of "CanonicalMIMEHeaderKey ex_net" "ex_client ''http://hook.example''" ex_net "''entry''"]
  by (simp add: ex_send_ok ex_client_sel)

text \<open>
  Claim C4. When the transport answers the request of \<open>Send\<close> with a response,
  \<open>Send\<close> returns nil, whatever the response is (the status code is not read).
  \<open>Send\<close> returns an error exactly when the rendering fails (\<open>msg.New\<close> or
  \<open>RenderJSON\<close>), or the construction of the request fails, or the transport fails on
  the request.
\<close>

theorem send_error_iff_failure:
  "(\<forall>req resp. req \<in> set (snd (Send n c entry)) \<and> hc_Do n req = Inr resp \<longrightarrow>
      fst (Send n c entry) = Returned_nil) \<and>
   ((\<exists>err. fst (Send n c entry) = Returned_err err) \<longleftrightarrow>
      (\<exists>err. msg_New n (meta c) entry = Inl err) \<or>
      (\<exists>message err. msg_New n (meta c) entry = Inr message \<and> RenderJSON n message = Inl err) \<or>
      (\<exists>message body timeout err.
          msg_New n (meta c) entry = Inr message \<and> RenderJSON n message = Inr body \<and>
          Timeout (cfg c) = Some timeout \<and>
          http_NewRequest n ''POST'' (Endpoint (cfg c)) = Some err) \<or>
      (\<exists>req err. req \<in> set (snd (Send n c entry)) \<and> hc_Do n req = Inl err))"
  by (auto simp: Send_def Let_def split: sum.splits option.splits)

text \<open>
  Witness for claim C4: a response of status 500 is a success; a refused connection is
  an error.
\<close>

theorem send_error_iff_failure_witness:
  "hc_Do ex_net (hd (snd (Send ex_net (ex_client ''http://hook.example'') ''entry''))) =
     Inr \<lparr>StatusCode = 500\<rparr> \<and>
   fst (Send ex_net (ex_client ''http://hook.example'') ''entry'') = Returned_nil \<and>
   hc_Do ex_net (hd (snd (Send ex_net (ex_client ''http://down.example'') ''entry''))) =
     Inl (Error ''connection refused'') \<and>
   (\<exists>err. fst (Send ex_net (ex_client ''http://down.example'') ''entry'') = Returned_err err)"
proof -
  let ?ok = "ex_client ''http://hook.example''" and ?down = "ex_client ''http://down.example''"
  have a: "hd (snd (Send ex_net ?ok ''entry'')) \<in> set (snd (Send ex_net ?ok ''entry'')) \<and>
           hc_Do ex_net (hd (snd (Send ex_net ?ok ''entry''))) = Inr \<lparr>StatusCode = 500\<rparr>"
    by (simp add: ex_send_ok ex_net_sel)
  have b: "hd (snd (Send ex_net ?down ''entry'')) \<in> set (snd (Send ex_net ?down ''entry'')) \<and>
           hc_Do ex_net (hd (snd (Send ex_net ?down ''entry''))) = Inl (Error ''connection refused'')"
    by (simp add: ex_send_down ex_net_sel)
  from send_error_iff_failure [of ex_net "?ok" "''entry''"] a
  have c: "fst (Send ex_net ?ok ''entry'') = Returned_nil" by blast
  from send_error_iff_failure [of ex_net "?down" "''entry''"] b
  have d: "\<exists>err. fst (Send ex_net ?down ''entry'') = Returned_err err" by blast
  from a b c d show ?thesis by blast
qed

text \<open>
  The error of the transport reaches the caller of \<open>Send\<close> as it is, and the request
  carries the configured timeout. (What the transport answers when the timeout elapses
  is decided inside the Go library, outside \<open>Send\<close>.)
\<close>

lemma send_returns_transport_error_unchanged:
  "req \<in> set (snd (Send n c entry)) \<Longrightarrow>
   (\<forall>err. hc_Do n req = Inl err \<longrightarrow> fst (Send n c entry) = Returned_err err) \<and>
   Timeout (cfg c) = Some (ctx_timeout req)"
  by (auto simp: Send_def Let_def split: sum.splits option.splits)

text \<open>
  Claim C5. When the entry fails to render (\<open>msg.New\<close> fails, or \<open>RenderJSON\<close> fails
  on the message), \<open>Send\<close> returns that error and hands no request to the transport.
\<close>

theorem send_render_failure_sends_nothing:
  assumes "msg_New n (meta c) entry = Inl err \<or>
           (\<exists>message. msg_New n (meta c) entry = Inr message \<and> RenderJSON n message = Inl err)"
  shows "Send n c entry = (Returned_err err, [])"
  using assms by (auto simp: Send_def)


text \<open>
  Witness for claim C5: an entry whose JSON rendering fails, and an entry that
  \<open>msg.New\<close> refuses.
\<close>

theorem send_render_failure_sends_nothing_witness:
  "RenderJSON ex_net ''unrenderable'' = Inl (Error ''json'') \<and>
   Send ex_net (ex_client ''http://hook.example'') ''unrenderable'' = (Returned_err (Error ''json''), []) \<and>
   msg_New ex_net (meta (ex_client ''http://hook.example'')) [] = Inl (Error ''empty entry'') \<and>
   Send ex_net (ex_client ''http://hook.example'') [] = (Returned_err (Error ''empty entry''), [])"
proof -
  let ?c = "ex_client ''http://hook.example''"
  have a: "msg_New ex_net (meta ?c) ''unrenderable'' = Inl (Error ''json'') \<or>
           (\<exists>message. msg_New ex_net (meta ?c) ''unrenderable'' = Inr message \<and>
              RenderJSON ex_net message = Inl (Error ''json''))"
    by (simp add: ex_net_sel)
  have b: "msg_New ex_net (meta ?c) [] = Inl (Error ''empty entry'') \<or>
           (\<exists>message. msg_New ex_net (meta ?c) [] = Inr message \<and>
              RenderJSON ex_net message = Inl (Error ''empty entry''))"
    by (simp add: ex_net_sel)
  from send_render_failure_sends_nothing [OF a] send_render_failure_sends_nothing [OF b]
  show ?thesis by (simp add: ex_net_sel)
qed

end
